theory Spec2Isabelle
  imports Complex_Main "HOL-Library.Word"
begin

section \<open>JavaScript values used by the handlers\<close>

text \<open>
  A JavaScript \<open>number\<close> is a double. Every finite double is a rational, so a finite number
  is modelled by its exact value; the three non-finite values are separate constructors.
  (The two zeros of a double are one value here: no code below tells them apart.)
\<close>

datatype number = Num rat | NaN | PosInfinity | NegInfinity

text \<open>\<open>a === b\<close> on numbers: \<open>NaN\<close> equals nothing, not even itself.\<close>

fun strict_eq :: "number \<Rightarrow> number \<Rightarrow> bool" where
  "strict_eq NaN _ = False"
| "strict_eq _ NaN = False"
| "strict_eq a b = (a = b)"

text \<open>\<open>a < b\<close> and \<open>a >= b\<close> on numbers: both are false as soon as one side is \<open>NaN\<close>.\<close>

fun js_lt :: "number \<Rightarrow> number \<Rightarrow> bool" where
  "js_lt NaN _ = False"
| "js_lt _ NaN = False"
| "js_lt (Num a) (Num b) = (a < b)"
| "js_lt _ NegInfinity = False"
| "js_lt PosInfinity _ = False"
| "js_lt NegInfinity _ = True"
| "js_lt (Num a) PosInfinity = True"

fun js_ge :: "number \<Rightarrow> number \<Rightarrow> bool" where
  "js_ge NaN _ = False"
| "js_ge _ NaN = False"
| "js_ge a b = (\<not> js_lt a b)"

subsection \<open>The built-in \<open>parseInt(string, 10)\<close>\<close>

text \<open>
  A JavaScript string is a list of UTF-16 code units, and \<open>req.params.id\<close> is such a
  string. \<open>codeUnits\<close> gives the code units of a string written in HOL's 8-bit characters
  (each character is its own code unit).
\<close>

type_synonym jsstring = "16 word list"

definition codeUnits :: "string \<Rightarrow> jsstring" where
  "codeUnits s = map of_char s"

text \<open>
  The white space that \<open>parseInt\<close> skips: TAB, LF, VT, FF, CR, SP, NBSP (U+00A0),
  U+1680, U+2000 to U+200A, LS (U+2028), PS (U+2029), U+202F, U+205F, U+3000 and the
  byte order mark U+FEFF.
\<close>

definition isWhiteSpace :: "16 word \<Rightarrow> bool" where
  "isWhiteSpace c =
     (unat c \<in> {9, 10, 11, 12, 13, 32, 160, 5760, 8232, 8233, 8239, 8287, 12288, 65279} \<or>
      (8192 \<le> unat c \<and> unat c \<le> 8202))"

text \<open>The decimal digits are the code units 48 (\<open>0\<close>) to 57 (\<open>9\<close>).\<close>

definition isDigit :: "16 word \<Rightarrow> bool" where
  "isDigit c = (48 \<le> unat c \<and> unat c \<le> 57)"

definition digitVal :: "16 word \<Rightarrow> int" where
  "digitVal c = int (unat c) - 48"

definition decimal :: "jsstring \<Rightarrow> int" where
  "decimal z = foldl (\<lambda>acc c. 10 * acc + digitVal c) 0 z"

text \<open>The number of binary digits of a positive integer.\<close>

function bitlen :: "int \<Rightarrow> nat" where
  "bitlen n = (if n \<le> 0 then 0 else Suc (bitlen (n div 2)))"
  by pat_completeness auto
termination
  by (relation "measure nat") auto

declare bitlen.simps [simp del]

text \<open>
  The double nearest to a non-negative integer (ties to the even significand of 53 bits);
  \<open>None\<close> when the result is beyond the largest finite double.
\<close>

definition roundToDouble :: "int \<Rightarrow> int option" where
  "roundToDouble m =
     (if m < 2 ^ 53 then Some m
      else (let e = bitlen m - 53;
                q = m div 2 ^ e;
                r = m mod 2 ^ e;
                h = 2 ^ (e - 1);
                q' = (if h < r \<or> (r = h \<and> odd q) then q + 1 else q);
                v = q' * 2 ^ e
            in if v < 2 ^ 1024 then Some v else None))"

text \<open>
  \<open>parseInt(s, 10)\<close>: skip leading white space, take one optional sign (code unit 43 is
  \<open>+\<close>, 45 is \<open>-\<close>), read the longest prefix of decimal digits, ignore the rest. No digit
  gives \<open>NaN\<close>; otherwise the result is the double nearest to the signed value of the
  digits.
\<close>

definition stripSign :: "jsstring \<Rightarrow> jsstring" where
  "stripSign s = (case s of [] \<Rightarrow> [] | c # cs \<Rightarrow> if c = 43 \<or> c = 45 then cs else s)"

definition isNegative :: "jsstring \<Rightarrow> bool" where
  "isNegative s = (case s of [] \<Rightarrow> False | c # cs \<Rightarrow> c = 45)"

definition parseInt10 :: "jsstring \<Rightarrow> number" where
  "parseInt10 s =
     (let t = dropWhile isWhiteSpace s;
          z = takeWhile isDigit (stripSign t)
      in if z = [] then NaN
         else (case roundToDouble (decimal z) of
                 None \<Rightarrow> if isNegative t then NegInfinity else PosInfinity
               | Some v \<Rightarrow> Num (if isNegative t then - of_int v else of_int v)))"

text \<open>
  Two notions for stating what \<open>parseInt\<close> reads: a string that does not begin with a
  decimal digit, and the value of a digit string under a sign.
\<close>

definition noLeadingDigit :: "jsstring \<Rightarrow> bool" where
  "noLeadingDigit s = (case s of [] \<Rightarrow> True | c # cs \<Rightarrow> \<not> isDigit c)"

definition signed :: "jsstring \<Rightarrow> int \<Rightarrow> rat" where
  "signed sg n = (if sg = [45] then - of_int n else of_int n)"

section \<open>The users resource (src/users.ts)\<close>

record CreateUserInput =
  name :: string
  email :: string
  age :: number

text \<open>\<open>UserData\<close> is \<open>CreateUserInput\<close> with the field \<open>id\<close>.\<close>

record UserData = CreateUserInput +
  id' :: number

text \<open>The module-level array, in its initial state.\<close>

definition users :: "UserData list" where
  "users =
     [\<lparr>name = ''Alice'', email = ''alice@example.com'', age = Num 28, id' = Num 1\<rparr>,
      \<lparr>name = ''Bob'', email = ''bob@example.com'', age = Num 34, id' = Num 2\<rparr>,
      \<lparr>name = ''Charlie'', email = ''charlie@example.com'', age = Num 25, id' = Num 3\<rparr>]"

text \<open>
  What a handler passes to \<open>res.json\<close>: the array, one user, \<open>{message}\<close> or
  \<open>{message, user}\<close>.
\<close>

datatype body =
    Users "UserData list"
  | User UserData
  | Message string
  | MessageUser string UserData

record Response =
  status :: nat
  body :: body

text \<open>
  Each handler takes the current array (and what it reads of the request) and returns the
  response it sends together with the array after the call.
\<close>

definition getAllUsers :: "UserData list \<Rightarrow> Response \<times> UserData list" where
  "getAllUsers us = (\<lparr>status = 200, body = Users us\<rparr>, us)"

text \<open>
  \<open>createUser\<close> builds \<open>{id: users.length + 1, ...req.body}\<close> and answers 201. The
  body is taken at its declared type \<open>CreateUserInput\<close>, an object of exactly the three
  fields \<open>name\<close>, \<open>email\<close> and \<open>age\<close>: for such a body the spread adds the three fields
  and keeps the id. (A body that carried a key \<open>id\<close> of its own, or lacked a field, is not
  a value of this type and is not covered.) The source has the line
  \<open>users.push(newUser)\<close> commented out, so the array is returned as it was.
\<close>

definition createUser :: "UserData list \<Rightarrow> CreateUserInput \<Rightarrow> Response \<times> UserData list" where
  "createUser us reqBody =
     (let newUser = \<lparr>name = name reqBody, email = email reqBody, age = age reqBody,
                      id' = Num (of_nat (length us) + 1)\<rparr>
      in (\<lparr>status = 201, body = MessageUser ''User created successfully'' newUser\<rparr>, us))"

definition getUserById :: "UserData list \<Rightarrow> jsstring \<Rightarrow> Response \<times> UserData list" where
  "getUserById us idParam =
     (let userId = parseInt10 idParam;
          user = find (\<lambda>u. strict_eq (id' u) userId) us
      in case user of
           Some u \<Rightarrow> (\<lparr>status = 200, body = User u\<rparr>, us)
         | None \<Rightarrow> (\<lparr>status = 404, body = Message ''User not found''\<rparr>, us))"

text \<open>The user carried by a response body, when there is one.\<close>

fun bodyUser :: "body \<Rightarrow> UserData option" where
  "bodyUser (User u) = Some u"
| "bodyUser (MessageUser m u) = Some u"
| "bodyUser _ = None"

text \<open>The id of the user carried by a response, when there is one.\<close>

definition createdId :: "Response \<Rightarrow> number option" where
  "createdId r = map_option id' (bodyUser (body r))"

text \<open>Two request bodies for \<open>POST /api/users\<close>; the first is the one of the specification.\<close>

definition dave :: CreateUserInput where
  "dave = \<lparr>name = ''Dave'', email = ''dave@x.com'', age = Num 22\<rparr>"

definition erin :: CreateUserInput where
  "erin = \<lparr>name = ''Erin'', email = ''erin@x.com'', age = Num 31\<rparr>"

section \<open>The generic container (src/example-scripts/Generics.ts)\<close>

record 'a DataStore =
  items :: "'a list"

definition DataStore_new :: "'a DataStore" where
  "DataStore_new = \<lparr>items = []\<rparr>"

definition addItem :: "'a DataStore \<Rightarrow> 'a \<Rightarrow> 'a DataStore" where
  "addItem ds item = ds\<lparr>items := items ds @ [item]\<rparr>"

text \<open>
  \<open>this.items[index]\<close>: the array has an element at a number exactly when the number is
  an integer from 0 up to the length (excluded); every other number is a property the array
  does not have, which reads as \<open>undefined\<close> (\<open>None\<close>).
\<close>

definition getItem :: "'a DataStore \<Rightarrow> number \<Rightarrow> 'a option" where
  "getItem ds index =
     (case index of
        Num q \<Rightarrow>
          if of_int \<lfloor>q\<rfloor> = q \<and> 0 \<le> q \<and> q < of_nat (length (items ds))
          then Some (items ds ! nat \<lfloor>q\<rfloor>) else None
      | _ \<Rightarrow> None)"

text \<open>
  The built-in \<open>splice(start, deleteCount)\<close>, as far as the array it leaves behind:
  \<open>start\<close> is truncated to an integer (\<open>NaN\<close> counts as 0), a negative one counts from
  the end, and the result is clamped to the array; at most the elements that are there are
  removed.
\<close>

definition truncate :: "rat \<Rightarrow> int" where
  "truncate q = (if 0 \<le> q then \<lfloor>q\<rfloor> else \<lceil>q\<rceil>)"

fun spliceStart :: "number \<Rightarrow> nat \<Rightarrow> nat" where
  "spliceStart NaN len = 0"
| "spliceStart NegInfinity len = 0"
| "spliceStart PosInfinity len = len"
| "spliceStart (Num q) len =
     (if truncate q < 0 then nat (max (int len + truncate q) 0) else min (nat (truncate q)) len)"

definition splice' :: "'a list \<Rightarrow> number \<Rightarrow> nat \<Rightarrow> 'a list" where
  "splice' xs start deleteCount =
     (let actualStart = spliceStart start (length xs);
          actualDeleteCount = min deleteCount (length xs - actualStart)
      in take actualStart xs @ drop (actualStart + actualDeleteCount) xs)"

definition removeItem :: "'a DataStore \<Rightarrow> number \<Rightarrow> 'a DataStore" where
  "removeItem ds index =
     (if js_ge index (Num 0) \<and> js_lt index (Num (of_nat (length (items ds))))
      then ds\<lparr>items := splice' (items ds) index 1\<rparr>
      else ds)"

definition getAllItems :: "'a DataStore \<Rightarrow> 'a list" where
  "getAllItems ds = items ds"

section \<open>Properties of the users resource\<close>

subsection \<open>Auxiliary facts\<close>

lemmas parseInt10_eval =
  parseInt10_def codeUnits_def isWhiteSpace_def isDigit_def stripSign_def isNegative_def
  decimal_def digitVal_def roundToDouble_def

lemma createUser_state: "snd (createUser us b) = us"
  by (simp add: createUser_def)

lemma createUser_response:
  "fst (createUser us b) =
     \<lparr>status = 201,
      body = MessageUser ''User created successfully''
               \<lparr>name = name b, email = email b, age = age b, id' = Num (of_nat (length us) + 1)\<rparr>\<rparr>"
  by (simp add: createUser_def)

lemma getUserById_state: "snd (getUserById us p) = us"
  by (simp add: getUserById_def split: option.split)

lemma parseInt10_4: "parseInt10 (codeUnits ''4'') = Num 4"
  by (simp add: parseInt10_eval)

lemma parseInt10_2: "parseInt10 (codeUnits ''2'') = Num 2"
  by (simp add: parseInt10_eval)

lemma parseInt10_999: "parseInt10 (codeUnits ''999'') = Num 999"
  by (simp add: parseInt10_eval)

lemma isDigit_not_isWhiteSpace: "isDigit c \<Longrightarrow> \<not> isWhiteSpace c"
  by (auto simp: isDigit_def isWhiteSpace_def)

lemma isDigit_not_sign: "isDigit c \<Longrightarrow> c \<noteq> 43 \<and> c \<noteq> 45"
  by (auto simp: isDigit_def)

lemma sign_not_isWhiteSpace: "\<not> isWhiteSpace 43" "\<not> isWhiteSpace 45"
  by (simp_all add: isWhiteSpace_def)

lemma sign_not_isDigit: "\<not> isDigit 43" "\<not> isDigit 45"
  by (simp_all add: isDigit_def)

lemma takeWhile_digits:
  assumes "\<forall>c\<in>set ds. isDigit c" and "noLeadingDigit rest"
  shows "takeWhile isDigit (ds @ rest) = ds"
proof -
  from assms(2) have "takeWhile isDigit rest = []"
    by (cases rest) (simp_all add: noLeadingDigit_def)
  with assms(1) show ?thesis
    by (simp add: takeWhile_append2)
qed

lemma dropWhile_white:
  assumes "\<forall>c\<in>set ws. isWhiteSpace c" and "t = [] \<or> \<not> isWhiteSpace (hd t)"
  shows "dropWhile isWhiteSpace (ws @ t) = t"
proof -
  from assms(2) have "dropWhile isWhiteSpace t = t"
    by (cases t) simp_all
  with assms(1) show ?thesis
    by (simp add: dropWhile_append2)
qed

lemma parseInt10_decompose:
  assumes ws: "\<forall>c\<in>set ws. isWhiteSpace c"
    and sg: "sg \<in> {[], [43], [45]}"
    and ds: "ds \<noteq> []" "\<forall>c\<in>set ds. isDigit c"
    and rest: "noLeadingDigit rest"
  shows "parseInt10 (ws @ sg @ ds @ rest) =
           (case roundToDouble (decimal ds) of
              None \<Rightarrow> if sg = [45] then NegInfinity else PosInfinity
            | Some v \<Rightarrow> Num (if sg = [45] then - of_int v else of_int v))"
proof -
  let ?t = "sg @ ds @ rest"
  from ds obtain d ds' where dcons: "ds = d # ds'" and d: "isDigit d"
    by (cases ds) auto
  from sg d dcons have "?t = [] \<or> \<not> isWhiteSpace (hd ?t)"
    by (auto simp: isDigit_not_isWhiteSpace sign_not_isWhiteSpace)
  with ws have drop: "dropWhile isWhiteSpace (ws @ ?t) = ?t"
    by (rule dropWhile_white)
  from sg d dcons have strip: "stripSign ?t = ds @ rest"
    by (auto simp: stripSign_def dest: isDigit_not_sign)
  from sg d dcons have neg: "isNegative ?t = (sg = [45])"
    by (auto simp: isNegative_def dest: isDigit_not_sign)
  from ds(2) rest have take: "takeWhile isDigit (ds @ rest) = ds"
    by (rule takeWhile_digits)
  have "parseInt10 (ws @ ?t) =
          (case roundToDouble (decimal ds) of
             None \<Rightarrow> if isNegative ?t then NegInfinity else PosInfinity
           | Some v \<Rightarrow> Num (if isNegative ?t then - of_int v else of_int v))"
    unfolding parseInt10_def Let_def drop strip take using ds(1) by simp
  then show ?thesis
    by (simp only: neg)
qed

lemma parseInt10_NaN:
  assumes "noLeadingDigit (stripSign (dropWhile isWhiteSpace p))"
  shows "parseInt10 p = NaN"
proof -
  from assms have "takeWhile isDigit (stripSign (dropWhile isWhiteSpace p)) = []"
    by (cases "stripSign (dropWhile isWhiteSpace p)") (simp_all add: noLeadingDigit_def)
  then show ?thesis
    by (simp add: parseInt10_def Let_def)
qed

lemma strict_eq_NaN: "\<not> strict_eq x NaN"
  by (cases x) simp_all

lemma getUserById_NaN:
  assumes "parseInt10 p = NaN"
  shows "getUserById us p = (\<lparr>status = 404, body = Message ''User not found''\<rparr>, us)"
proof -
  have "find (\<lambda>u. strict_eq (id' u) NaN) us = None"
    by (simp add: find_None_iff strict_eq_NaN)
  with assms show ?thesis
    by (simp add: getUserById_def)
qed

lemma getUserById_Num:
  assumes "parseInt10 p = Num k" and "u \<in> set us" and "id' u = Num k"
  shows "\<exists>u'\<in>set us. id' u' = Num k \<and> getUserById us p = (\<lparr>status = 200, body = User u'\<rparr>, us)"
proof (cases "find (\<lambda>u. strict_eq (id' u) (Num k)) us")
  case None
  with assms(2,3) show ?thesis
    by (auto simp: find_None_iff)
next
  case (Some u')
  then have "u' \<in> set us" and "strict_eq (id' u') (Num k)"
    by (auto simp: find_Some_iff)
  moreover from this(2) have "id' u' = Num k"
    by (cases "id' u'") simp_all
  ultimately show ?thesis using Some assms(1)
    by (auto simp: getUserById_def)
qed

subsection \<open>Creating a user\<close>

text \<open>
  Claim C1. The claim: \<open>createUser\<close> appends the new record (the assigned id and the given
  fields) to the array and returns it, so that the record is in the array afterwards.
  The code returns the record but leaves the array alone: after \<open>POST\<close> of Dave on the
  initial array the array is still the three initial users, and Dave's record is not in it.
\<close>

theorem createUser_does_not_append:
  "snd (createUser users dave) = users \<and>
   bodyUser (body (fst (createUser users dave))) =
     Some \<lparr>name = ''Dave'', email = ''dave@x.com'', age = Num 22, id' = Num 4\<rparr> \<and>
   \<lparr>name = ''Dave'', email = ''dave@x.com'', age = Num 22, id' = Num 4\<rparr>
     \<notin> set (snd (createUser users dave)) \<and>
   length (snd (createUser users dave)) = 3"
  by (simp add: createUser_state createUser_response users_def dave_def)

text \<open>
  Claim C2. The claim: looking up the id of a user that \<open>createUser\<close> returned gives that
  user back. The code answers 404 instead: Dave is created with id 4, and
  \<open>GET /api/users/4\<close> right after finds no user.
\<close>

theorem created_user_not_found:
  "bodyUser (body (fst (createUser users dave))) =
     Some \<lparr>name = ''Dave'', email = ''dave@x.com'', age = Num 22, id' = Num 4\<rparr> \<and>
   fst (getUserById (snd (createUser users dave)) (codeUnits ''4'')) =
     \<lparr>status = 404, body = Message ''User not found''\<rparr>"
  by (simp add: createUser_state createUser_response getUserById_def parseInt10_4 users_def dave_def)

text \<open>
  Claim C3. The claim: the ids returned by a sequence of creates are pairwise different.
  In the code two creates in a row, Dave and then Erin, both return id 4.
\<close>

theorem two_creates_same_id:
  "createdId (fst (createUser users dave)) = Some (Num 4) \<and>
   createdId (fst (createUser (snd (createUser users dave)) erin)) = Some (Num 4) \<and>
   \<not> distinct [createdId (fst (createUser users dave)),
                createdId (fst (createUser (snd (createUser users dave)) erin))]"
  by (simp add: createdId_def createUser_state createUser_response users_def)

text \<open>
  Claim C4. The claim: every id assigned by a create is strictly greater than every id
  assigned by an earlier create. In the code Dave and then Erin, created in a row on the
  initial array, both get id 4, and 4 is not less than 4: the id is the length of the array
  plus one, and the array does not grow because the append is disabled.
\<close>

theorem create_ids_not_increasing:
  "createdId (fst (createUser users dave)) = Some (Num 4) \<and>
   createdId (fst (createUser (snd (createUser users dave)) erin)) = Some (Num 4) \<and>
   \<not> js_lt (Num 4) (Num 4)"
  by (simp add: createdId_def createUser_state createUser_response users_def)

text \<open>
  Claim C7. On the initial array of three users, \<open>createUser\<close> with the body
  \<open>{name: Dave, email: dave@x.com, age: 22}\<close> answers 201 with the message
  ``User created successfully'' and the user with id 4 and the given fields.
\<close>

theorem createUser_seed_dave:
  "fst (createUser users dave) =
     \<lparr>status = 201,
      body = MessageUser ''User created successfully''
               \<lparr>name = ''Dave'', email = ''dave@x.com'', age = Num 22, id' = Num 4\<rparr>\<rparr>"
  by (simp add: createUser_response users_def dave_def)

subsection \<open>Reading users\<close>

text \<open>
  Claim C5. For every path parameter, with the key \<open>parseInt(param, 10)\<close>:
  when some stored user has an id equal (\<open>===\<close>) to the key, \<open>getUserById\<close> answers
  200 with such a user as body; otherwise it answers 404 with the message
  ``User not found''. In both cases the handler returns a response: there is no third
  outcome.
\<close>

theorem getUserById_found_or_404:
  "(if \<exists>u\<in>set us. strict_eq (id' u) (parseInt10 p)
    then \<exists>u\<in>set us. strict_eq (id' u) (parseInt10 p) \<and>
           getUserById us p = (\<lparr>status = 200, body = User u\<rparr>, us)
    else getUserById us p = (\<lparr>status = 404, body = Message ''User not found''\<rparr>, us))"
proof (cases "find (\<lambda>u. strict_eq (id' u) (parseInt10 p)) us")
  case None
  then have "\<not> (\<exists>u\<in>set us. strict_eq (id' u) (parseInt10 p))"
    by (simp add: find_None_iff)
  with None show ?thesis
    by (simp add: getUserById_def)
next
  case (Some u)
  then have "u \<in> set us" and "strict_eq (id' u) (parseInt10 p)"
    by (auto simp: find_Some_iff)
  with Some show ?thesis
    by (auto simp: getUserById_def)
qed

theorem getUserById_found_or_404_witness:
  "getUserById users (codeUnits ''2'') =
     (\<lparr>status = 200,
       body = User \<lparr>name = ''Bob'', email = ''bob@example.com'', age = Num 34, id' = Num 2\<rparr>\<rparr>, users) \<and>
   getUserById users (codeUnits ''999'') =
     (\<lparr>status = 404, body = Message ''User not found''\<rparr>, users)"
proof -
  have found: "\<exists>u\<in>set users. strict_eq (id' u) (parseInt10 (codeUnits ''2''))"
    by (simp add: users_def parseInt10_2)
  have missing: "\<not> (\<exists>u\<in>set users. strict_eq (id' u) (parseInt10 (codeUnits ''999'')))"
    by (simp add: users_def parseInt10_999)
  from found getUserById_found_or_404 [of users "codeUnits ''2''"]
  have "\<exists>u\<in>set users. strict_eq (id' u) (parseInt10 (codeUnits ''2'')) \<and>
          getUserById users (codeUnits ''2'') = (\<lparr>status = 200, body = User u\<rparr>, users)"
    by simp
  then have two: "getUserById users (codeUnits ''2'') =
     (\<lparr>status = 200,
       body = User \<lparr>name = ''Bob'', email = ''bob@example.com'', age = Num 34, id' = Num 2\<rparr>\<rparr>, users)"
    by (auto simp: users_def parseInt10_2)
  from missing getUserById_found_or_404 [of users "codeUnits ''999''"]
  have "getUserById users (codeUnits ''999'') =
          (\<lparr>status = 404, body = Message ''User not found''\<rparr>, users)"
    by simp
  with two show ?thesis by simp
qed

text \<open>
  Claim C6. \<open>getAllUsers\<close> always answers 200 with the whole array, in the array's order,
  as body; on the initial array the body is exactly Alice, Bob, Charlie in that order.
\<close>

theorem getAllUsers_body:
  "getAllUsers us = (\<lparr>status = 200, body = Users us\<rparr>, us) \<and>
   fst (getAllUsers users) =
     \<lparr>status = 200,
      body = Users
        [\<lparr>name = ''Alice'', email = ''alice@example.com'', age = Num 28, id' = Num 1\<rparr>,
         \<lparr>name = ''Bob'', email = ''bob@example.com'', age = Num 34, id' = Num 2\<rparr>,
         \<lparr>name = ''Charlie'', email = ''charlie@example.com'', age = Num 25, id' = Num 3\<rparr>]\<rparr>"
  by (simp add: getAllUsers_def users_def)

text \<open>
  Claim C8. The two reads leave the array as it is, and a read repeated after any reads
  gives the same answer as before.
\<close>

theorem reads_do_not_mutate:
  "snd (getAllUsers us) = us \<and> snd (getUserById us p) = us \<and>
   getAllUsers (snd (getAllUsers us)) = getAllUsers us \<and>
   getAllUsers (snd (getUserById us p)) = getAllUsers us \<and>
   getUserById (snd (getUserById us p)) p' = getUserById us p' \<and>
   getUserById (snd (getAllUsers us)) p' = getUserById us p'"
  by (simp add: getUserById_state getAllUsers_def)

text \<open>
  Claim C9, as stated: a parameter with no leading digits parses to \<open>NaN\<close> and yields
  404. This fails: \<open>+2\<close> and \<open> 2\<close> (a space, then 2) do not begin with a digit, yet
  \<open>parseInt\<close> reads 2 from both and the handler answers 200 with Bob.
\<close>

theorem plus_sign_is_parsed:
  "noLeadingDigit (codeUnits ''+2'') \<and> parseInt10 (codeUnits ''+2'') = Num 2 \<and>
   getUserById users (codeUnits ''+2'') =
     (\<lparr>status = 200,
       body = User \<lparr>name = ''Bob'', email = ''bob@example.com'', age = Num 34, id' = Num 2\<rparr>\<rparr>, users) \<and>
   noLeadingDigit (codeUnits '' 2'') \<and> parseInt10 (codeUnits '' 2'') = Num 2 \<and>
   status (fst (getUserById users (codeUnits '' 2''))) = 200"
  by (simp add: noLeadingDigit_def getUserById_def parseInt10_eval users_def Let_def)

text \<open>
  Claim C9, amended: the key of the lookup is \<open>parseInt(param, 10)\<close>, which skips
  leading white space and one sign before it reads digits. A parameter made of white space
  (possibly none, any of the code units \<open>parseInt\<close> counts as white space), an optional
  sign, a non-empty run of decimal digits whose value a double holds exactly, and then
  anything that does not begin with a digit, has that signed integer as key, and the answer
  is 200 with a stored user of that id when there is one. A parameter that has no digit
  right after its leading white space and optional sign parses to \<open>NaN\<close>, matches no user
  and gets the 404 answer.
\<close>

theorem getUserById_key:
  "((\<forall>c\<in>set ws. isWhiteSpace c) \<and> sg \<in> {[], [43], [45]} \<and>
    ds \<noteq> [] \<and> (\<forall>c\<in>set ds. isDigit c) \<and> noLeadingDigit rest \<and>
    roundToDouble (decimal ds) = Some (decimal ds) \<longrightarrow>
      parseInt10 (ws @ sg @ ds @ rest) = Num (signed sg (decimal ds)) \<and>
      ((\<exists>u\<in>set us. id' u = Num (signed sg (decimal ds))) \<longrightarrow>
       (\<exists>u\<in>set us. id' u = Num (signed sg (decimal ds)) \<and>
          getUserById us (ws @ sg @ ds @ rest) = (\<lparr>status = 200, body = User u\<rparr>, us)))) \<and>
   (noLeadingDigit (stripSign (dropWhile isWhiteSpace p)) \<longrightarrow>
      parseInt10 p = NaN \<and>
      getUserById us p = (\<lparr>status = 404, body = Message ''User not found''\<rparr>, us))"
proof (intro conjI impI)
  assume h: "(\<forall>c\<in>set ws. isWhiteSpace c) \<and> sg \<in> {[], [43], [45]} \<and>
    ds \<noteq> [] \<and> (\<forall>c\<in>set ds. isDigit c) \<and> noLeadingDigit rest \<and>
    roundToDouble (decimal ds) = Some (decimal ds)"
  then have "parseInt10 (ws @ sg @ ds @ rest) =
           (case roundToDouble (decimal ds) of
              None \<Rightarrow> if sg = [45] then NegInfinity else PosInfinity
            | Some v \<Rightarrow> Num (if sg = [45] then - of_int v else of_int v))"
    by (intro parseInt10_decompose) simp_all
  with h show key: "parseInt10 (ws @ sg @ ds @ rest) = Num (signed sg (decimal ds))"
    by (simp add: signed_def)
  assume "\<exists>u\<in>set us. id' u = Num (signed sg (decimal ds))"
  then obtain u where "u \<in> set us" and "id' u = Num (signed sg (decimal ds))"
    by blast
  with key show "\<exists>u\<in>set us. id' u = Num (signed sg (decimal ds)) \<and>
          getUserById us (ws @ sg @ ds @ rest) = (\<lparr>status = 200, body = User u\<rparr>, us)"
    by (rule getUserById_Num)
next
  assume "noLeadingDigit (stripSign (dropWhile isWhiteSpace p))"
  then show nan: "parseInt10 p = NaN"
    by (rule parseInt10_NaN)
  then show "getUserById us p = (\<lparr>status = 404, body = Message ''User not found''\<rparr>, us)"
    by (rule getUserById_NaN)
qed

text \<open>
  The theorem at four parameters: \<open>2abc\<close>; the byte order mark U+FEFF, a space, \<open>+2abc\<close>;
  \<open>abc\<close>; and a tab, U+3000, \<open>-abc\<close>.
\<close>

theorem getUserById_key_witness:
  "parseInt10 (codeUnits ''2abc'') = Num 2 \<and>
   getUserById users (codeUnits ''2abc'') =
     (\<lparr>status = 200,
       body = User \<lparr>name = ''Bob'', email = ''bob@example.com'', age = Num 34, id' = Num 2\<rparr>\<rparr>, users) \<and>
   parseInt10 ([65279, 32] @ codeUnits ''+2abc'') = Num 2 \<and>
   getUserById users ([65279, 32] @ codeUnits ''+2abc'') =
     (\<lparr>status = 200,
       body = User \<lparr>name = ''Bob'', email = ''bob@example.com'', age = Num 34, id' = Num 2\<rparr>\<rparr>, users) \<and>
   parseInt10 (codeUnits ''abc'') = NaN \<and>
   getUserById users (codeUnits ''abc'') =
     (\<lparr>status = 404, body = Message ''User not found''\<rparr>, users) \<and>
   parseInt10 ([9, 12288] @ codeUnits ''-abc'') = NaN \<and>
   getUserById users ([9, 12288] @ codeUnits ''-abc'') =
     (\<lparr>status = 404, body = Message ''User not found''\<rparr>, users)"
proof -
  let ?two = "codeUnits ''2''" and ?abc = "codeUnits ''abc''"
  have bob: "\<exists>u\<in>set users. id' u = Num 2"
    by (simp add: users_def)
  have only_bob: "\<And>u. u \<in> set users \<Longrightarrow> id' u = Num 2 \<Longrightarrow>
      u = \<lparr>name = ''Bob'', email = ''bob@example.com'', age = Num 34, id' = Num 2\<rparr>"
    by (auto simp: users_def)
  have plain: "(\<forall>c\<in>set []. isWhiteSpace c) \<and> [] \<in> {[], [43], [45 :: 16 word]} \<and>
    ?two \<noteq> [] \<and> (\<forall>c\<in>set ?two. isDigit c) \<and> noLeadingDigit ?abc \<and>
    roundToDouble (decimal ?two) = Some (decimal ?two)"
    by (simp add: noLeadingDigit_def parseInt10_eval)
  have spaced: "(\<forall>c\<in>set [65279, 32]. isWhiteSpace c) \<and> [43] \<in> {[], [43], [45 :: 16 word]} \<and>
    ?two \<noteq> [] \<and> (\<forall>c\<in>set ?two. isDigit c) \<and> noLeadingDigit ?abc \<and>
    roundToDouble (decimal ?two) = Some (decimal ?two)"
    by (simp add: noLeadingDigit_def parseInt10_eval)
  have val: "signed [] (decimal ?two) = 2" "signed [43] (decimal ?two) = 2"
    by (simp_all add: signed_def decimal_def digitVal_def codeUnits_def)
  have nan1: "noLeadingDigit (stripSign (dropWhile isWhiteSpace ?abc))"
    by (simp add: noLeadingDigit_def parseInt10_eval)
  have nan2: "noLeadingDigit (stripSign (dropWhile isWhiteSpace ([9, 12288] @ codeUnits ''-abc'')))"
    by (simp add: noLeadingDigit_def parseInt10_eval)
  have str: "[] @ [] @ ?two @ ?abc = codeUnits ''2abc''"
    "[65279, 32] @ [43] @ ?two @ ?abc = [65279, 32] @ codeUnits ''+2abc''"
    by (simp_all add: codeUnits_def)
  from getUserById_key [of "[]" "[]" ?two ?abc users ?abc] plain val bob nan1
  have 1: "parseInt10 ([] @ [] @ ?two @ ?abc) = Num 2 \<and>
     (\<exists>u\<in>set users. id' u = Num 2 \<and>
        getUserById users ([] @ [] @ ?two @ ?abc) = (\<lparr>status = 200, body = User u\<rparr>, users)) \<and>
     parseInt10 ?abc = NaN \<and>
     getUserById users ?abc = (\<lparr>status = 404, body = Message ''User not found''\<rparr>, users)"
    by simp
  from getUserById_key [of "[65279, 32]" "[43]" ?two ?abc users "[9, 12288] @ codeUnits ''-abc''"]
    spaced val bob nan2
  have 2: "parseInt10 ([65279, 32] @ [43] @ ?two @ ?abc) = Num 2 \<and>
     (\<exists>u\<in>set users. id' u = Num 2 \<and>
        getUserById users ([65279, 32] @ [43] @ ?two @ ?abc) =
          (\<lparr>status = 200, body = User u\<rparr>, users)) \<and>
     parseInt10 ([9, 12288] @ codeUnits ''-abc'') = NaN \<and>
     getUserById users ([9, 12288] @ codeUnits ''-abc'') =
       (\<lparr>status = 404, body = Message ''User not found''\<rparr>, users)"
    by simp
  from 1 2 only_bob show ?thesis
    unfolding str by blast
qed

section \<open>Properties of the generic container\<close>

lemma js_in_range_iff:
  "js_ge index (Num 0) \<and> js_lt index (Num (of_nat n)) \<longleftrightarrow>
   (\<exists>q. index = Num q \<and> 0 \<le> q \<and> q < of_nat n)"
  by (cases index) auto

lemma getItem_out_of_range:
  "\<forall>q. index = Num q \<longrightarrow> q < 0 \<or> of_nat (length (items ds)) \<le> q \<Longrightarrow> getItem ds index = None"
  by (cases index) (auto simp: getItem_def)

lemma removeItem_out_of_range:
  "\<forall>q. index = Num q \<longrightarrow> q < 0 \<or> of_nat (length (items ds)) \<le> q \<Longrightarrow> removeItem ds index = ds"
  by (cases index) (auto simp: removeItem_def)

lemma spliceStart_in_range:
  assumes "0 \<le> q" and "q < of_nat n"
  shows "spliceStart (Num q) n = nat \<lfloor>q\<rfloor>" and "nat \<lfloor>q\<rfloor> < n"
proof -
  from assms(1) have nonneg: "0 \<le> \<lfloor>q\<rfloor>" by simp
  from assms(2) have "\<lfloor>q\<rfloor> < int n" by (simp add: floor_less_iff)
  with nonneg show lt: "nat \<lfloor>q\<rfloor> < n" by linarith
  from assms(1) nonneg lt show "spliceStart (Num q) n = nat \<lfloor>q\<rfloor>"
    by (simp add: truncate_def)
qed

lemma removeItem_in_range:
  assumes "0 \<le> q" and "q < of_nat (length (items ds))"
  shows "items (removeItem ds (Num q)) =
           take (nat \<lfloor>q\<rfloor>) (items ds) @ drop (Suc (nat \<lfloor>q\<rfloor>)) (items ds)"
proof -
  from assms have guard: "js_ge (Num q) (Num 0) \<and> js_lt (Num q) (Num (of_nat (length (items ds))))"
    by (simp add: js_in_range_iff)
  from spliceStart_in_range [OF assms]
  have "splice' (items ds) (Num q) 1 =
          take (nat \<lfloor>q\<rfloor>) (items ds) @ drop (Suc (nat \<lfloor>q\<rfloor>)) (items ds)"
    by (simp add: splice'_def Let_def)
  with guard show ?thesis
    by (simp add: removeItem_def)
qed

text \<open>
  Claim C10. For every index outside the range from 0 to the number of items (that is,
  every number except those \<open>q\<close> with \<open>0 \<le> q\<close> and \<open>q\<close> below the number of
  items), \<open>getItem\<close> returns \<open>undefined\<close> and \<open>removeItem\<close> leaves the store as it is.
  For an index inside the range, \<open>removeItem\<close> removes exactly one item, the one at the
  position the index truncates to.
\<close>

theorem DataStore_index_range:
  "((\<forall>q. index = Num q \<longrightarrow> q < 0 \<or> of_nat (length (items ds)) \<le> q) \<longrightarrow>
      getItem ds index = None \<and> removeItem ds index = ds) \<and>
   (0 \<le> r \<and> r < of_nat (length (items ds)) \<longrightarrow>
      items (removeItem ds (Num r)) =
        take (nat \<lfloor>r\<rfloor>) (items ds) @ drop (Suc (nat \<lfloor>r\<rfloor>)) (items ds) \<and>
      Suc (length (items (removeItem ds (Num r)))) = length (items ds))"
proof (intro conjI impI)
  assume out: "\<forall>q. index = Num q \<longrightarrow> q < 0 \<or> of_nat (length (items ds)) \<le> q"
  then show "getItem ds index = None" by (rule getItem_out_of_range)
  from out show "removeItem ds index = ds" by (rule removeItem_out_of_range)
next
  assume inr: "0 \<le> r \<and> r < of_nat (length (items ds))"
  then have eq: "items (removeItem ds (Num r)) =
        take (nat \<lfloor>r\<rfloor>) (items ds) @ drop (Suc (nat \<lfloor>r\<rfloor>)) (items ds)"
    by (simp add: removeItem_in_range)
  then show "items (removeItem ds (Num r)) =
        take (nat \<lfloor>r\<rfloor>) (items ds) @ drop (Suc (nat \<lfloor>r\<rfloor>)) (items ds)" .
  from inr have "nat \<lfloor>r\<rfloor> < length (items ds)"
    by (simp add: spliceStart_in_range(2))
  with eq show "Suc (length (items (removeItem ds (Num r)))) = length (items ds)"
    by simp
qed

theorem DataStore_index_range_witness:
  "getItem \<lparr>items = [10, 20, 30 :: nat]\<rparr> (Num 3) = None \<and>
   removeItem \<lparr>items = [10, 20, 30 :: nat]\<rparr> (Num 3) = \<lparr>items = [10, 20, 30]\<rparr> \<and>
   getItem \<lparr>items = [10, 20, 30 :: nat]\<rparr> NaN = None \<and>
   removeItem \<lparr>items = [10, 20, 30 :: nat]\<rparr> NaN = \<lparr>items = [10, 20, 30]\<rparr> \<and>
   items (removeItem \<lparr>items = [10, 20, 30 :: nat]\<rparr> (Num 1)) = [10, 30]"
proof -
  let ?ds = "\<lparr>items = [10, 20, 30 :: nat]\<rparr>"
  have a: "\<forall>q. Num 3 = Num q \<longrightarrow> q < 0 \<or> of_nat (length (items ?ds)) \<le> q" by simp
  have b: "\<forall>q. NaN = Num q \<longrightarrow> q < 0 \<or> of_nat (length (items ?ds)) \<le> q" by simp
  have c: "(0::rat) \<le> 1 \<and> (1::rat) < of_nat (length (items ?ds))" by simp
  from a DataStore_index_range [of "Num 3" ?ds 1]
  have 1: "getItem ?ds (Num 3) = None \<and> removeItem ?ds (Num 3) = ?ds" by blast
  from b DataStore_index_range [of NaN ?ds 1]
  have 2: "getItem ?ds NaN = None \<and> removeItem ?ds NaN = ?ds" by blast
  from c DataStore_index_range [of NaN ?ds 1]
  have 3: "items (removeItem ?ds (Num 1)) = [10, 30]" by simp
  from 1 2 3 show ?thesis by simp
qed

end
